theory Spec2Isabelle
  imports Complex_Main "HOL-Library.Log_Nat"
begin

section \<open>Strings\<close>

text \<open>
  A Python \<open>str\<close> is a sequence of code points. The model uses \<^typ>\<open>string\<close>, whose
  characters are the code points 0 to 255 (Latin-1): this covers ASCII, the non-breaking
  space U+00A0 and every accented letter the source names. \<open>CHR 0xE9\<close> is the one code
  point U+00E9, not its UTF-8 bytes.
\<close>

definition py_isspace :: "char \<Rightarrow> bool" where
  \<comment> \<open>\<open>str.isspace\<close> on one code point; also what \<open>\s\<close> matches in a \<open>str\<close> pattern\<close>
  "py_isspace c \<longleftrightarrow>
     List.member [CHR 0x09, CHR 0x0A, CHR 0x0B, CHR 0x0C, CHR 0x0D, CHR 0x1C, CHR 0x1D,
                  CHR 0x1E, CHR 0x1F, CHR 0x20, CHR 0x85, CHR 0xA0] c"

definition py_lstrip :: "string \<Rightarrow> string" where
  "py_lstrip s = dropWhile py_isspace s"

definition py_rstrip :: "string \<Rightarrow> string" where
  "py_rstrip s = rev (dropWhile py_isspace (rev s))"

definition py_strip :: "string \<Rightarrow> string" where
  "py_strip s = py_rstrip (py_lstrip s)"

definition py_replace :: "char \<Rightarrow> string \<Rightarrow> string \<Rightarrow> string" where
  \<comment> \<open>\<open>s.replace(a, b)\<close> for a one-character \<open>a\<close>, the only form the source uses\<close>
  "py_replace a b s = concat (map (\<lambda>c. if c = a then b else [c]) s)"

subsection \<open>\<open>text_clean\<close>\<close>

definition re_class_blank :: "char \<Rightarrow> bool" where
  \<comment> \<open>the class \<open>[ \t\r\f\v]\<close>\<close>
  "re_class_blank c \<longleftrightarrow>
     List.member [CHR 0x20, CHR 0x09, CHR 0x0D, CHR 0x0C, CHR 0x0B] c"

function re_sub_blank :: "string \<Rightarrow> string" where
  \<comment> \<open>\<open>re.sub(r"[ \t\r\f\v]+", " ", s)\<close>: every maximal run of the class becomes one space\<close>
  "re_sub_blank [] = []"
| "re_sub_blank (c # cs) =
     (if re_class_blank c then CHR 0x20 # re_sub_blank (dropWhile re_class_blank cs)
      else c # re_sub_blank cs)"
  by pat_completeness auto
termination
  by (relation "measure length") (auto simp: less_Suc_eq_le length_dropWhile_le)

definition text_clean :: "string \<Rightarrow> string" where
  "text_clean s = py_strip (re_sub_blank (py_replace (CHR 0xA0) [CHR 0x20] s))"


subsection \<open>More of \<open>str\<close>\<close>

definition code_in :: "nat \<Rightarrow> nat \<Rightarrow> char \<Rightarrow> bool" where
  \<comment> \<open>the code point of \<open>c\<close> lies in the range \<open>lo..hi\<close>\<close>
  "code_in lo hi c \<longleftrightarrow> lo \<le> of_char c \<and> (of_char c :: nat) \<le> hi"

definition py_lower_char :: "char \<Rightarrow> char" where
  \<comment> \<open>\<open>str.lower\<close> on a Latin-1 code point: A-Z, and the accented capitals but U+00D7\<close>
  "py_lower_char c =
     (if code_in 0x41 0x5A c \<or> code_in 0xC0 0xD6 c \<or> code_in 0xD8 0xDE c
      then char_of (of_char c + (32::nat)) else c)"

definition py_upper_char :: "char \<Rightarrow> char" where
  \<comment> \<open>the upper-case partner inside Latin-1 (U+00B5, U+00DF and U+00FF have none there)\<close>
  "py_upper_char c =
     (if code_in 0x61 0x7A c \<or> code_in 0xE0 0xF6 c \<or> code_in 0xF8 0xFE c
      then char_of (of_char c - (32::nat)) else c)"

definition py_lower :: "string \<Rightarrow> string" where
  "py_lower s = map py_lower_char s"

definition py_startswith :: "string \<Rightarrow> string \<Rightarrow> bool" where
  "py_startswith s p \<longleftrightarrow> take (length p) s = p"

fun py_contains :: "string \<Rightarrow> string \<Rightarrow> bool" where
  \<comment> \<open>\<open>sub in s\<close>\<close>
  "py_contains sub [] = (sub = [])"
| "py_contains sub (c # cs) = (py_startswith (c # cs) sub \<or> py_contains sub cs)"

fun py_join :: "string \<Rightarrow> string list \<Rightarrow> string" where
  \<comment> \<open>\<open>sep.join(xs)\<close>\<close>
  "py_join sep [] = []"
| "py_join sep [x] = x"
| "py_join sep (x # y # ys) = x @ sep @ py_join sep (y # ys)"

definition py_linebreak :: "char \<Rightarrow> bool" where
  \<comment> \<open>the line boundaries of \<open>str.splitlines\<close> below U+0100\<close>
  "py_linebreak c \<longleftrightarrow>
     List.member [CHR 0x0A, CHR 0x0B, CHR 0x0C, CHR 0x0D, CHR 0x1C, CHR 0x1D, CHR 0x1E,
                  CHR 0x85] c"

fun splitlines_from :: "string \<Rightarrow> string \<Rightarrow> string list" where
  \<comment> \<open>\<open>cur\<close> is the line read so far; CR LF is one boundary; no empty last line\<close>
  "splitlines_from cur [] = (if cur = [] then [] else [cur])"
| "splitlines_from cur (c # cs) =
     (if py_linebreak c
      then cur # splitlines_from []
             (if c = CHR 0x0D \<and> take 1 cs = [CHR 0x0A] then drop 1 cs else cs)
      else splitlines_from (cur @ [c]) cs)"

definition py_splitlines :: "string \<Rightarrow> string list" where
  "py_splitlines s = splitlines_from [] s"

definition py_int :: "string \<Rightarrow> nat" where
  \<comment> \<open>\<open>int(s)\<close> for a string of decimal digits, the only strings the source converts\<close>
  "py_int s = foldl (\<lambda>n c. 10 * n + (of_char c - 48)) 0 s"

definition truthy :: "string option \<Rightarrow> bool" where
  \<comment> \<open>the truth value of \<open>d.get(k)\<close>: neither \<open>None\<close> nor the empty string\<close>
  "truthy v \<longleftrightarrow> (case v of None \<Rightarrow> False | Some s \<Rightarrow> s \<noteq> [])"

definition or_else :: "string option \<Rightarrow> string \<Rightarrow> string" where
  \<comment> \<open>\<open>v or d\<close>\<close>
  "or_else v d = (case v of None \<Rightarrow> d | Some s \<Rightarrow> if s = [] then d else s)"

section \<open>Regular expressions\<close>

text \<open>
  The patterns of the source are run by a backtracking matcher that follows Python's
  \<open>re\<close>: \<open>run r st\<close> lists every way \<open>r\<close> can match at the state \<open>st\<close>, in the order
  in which backtracking tries them (a greedy repetition tries one more round before it
  stops, a lazy one stops first, an alternation tries its left branch first). The first
  element of the list is the match \<open>re\<close> reports. A state holds the position in the
  subject, the text still to read and the groups captured so far.
\<close>

datatype re =
    Cls "char \<Rightarrow> bool"
  | Cat re re
  | Alt re re
  | Rep nat "nat option" re
  | Lazy nat "nat option" re
  | Grp nat re
  | Bol
  | Eol
  | Eps

record mstate =
  pos :: nat
  rest :: string
  caps :: "nat \<rightharpoonup> string"

primrec rep_iter ::
  "(mstate \<Rightarrow> mstate list) \<Rightarrow> bool \<Rightarrow> nat \<Rightarrow> nat \<Rightarrow> nat option \<Rightarrow> mstate \<Rightarrow> mstate list" where
  \<comment> \<open>\<open>{lo,hi}\<close> over the body \<open>f\<close>; the third argument bounds the rounds by the text left,
      since every round of the bodies used here reads at least one character\<close>
  "rep_iter f greedy 0 lo hi st = (if lo = 0 then [st] else [])"
| "rep_iter f greedy (Suc k) lo hi st =
     (let more = (if hi = Some 0 then []
                  else concat (map (rep_iter f greedy k (lo - 1) (map_option (\<lambda>h. h - 1) hi))
                                   (filter (\<lambda>st'. pos st < pos st') (f st))));
          stop = (if lo = 0 then [st] else [])
      in if greedy then more @ stop else stop @ more)"

fun run :: "re \<Rightarrow> mstate \<Rightarrow> mstate list" where
  "run (Cls P) st =
     (case rest st of [] \<Rightarrow> []
      | c # cs \<Rightarrow> if P c then [st\<lparr>pos := Suc (pos st), rest := cs\<rparr>] else [])"
| "run (Cat r1 r2) st = concat (map (run r2) (run r1 st))"
| "run (Alt r1 r2) st = run r1 st @ run r2 st"
| "run (Rep lo hi r) st = rep_iter (run r) True (length (rest st)) lo hi st"
| "run (Lazy lo hi r) st = rep_iter (run r) False (length (rest st)) lo hi st"
| "run (Grp i r) st =
     map (\<lambda>st'. st'\<lparr>caps := (caps st')(i \<mapsto> take (pos st' - pos st) (rest st))\<rparr>) (run r st)"
| "run Bol st = (if pos st = 0 then [st] else [])"
| "run Eol st = (if rest st = [] \<or> rest st = [CHR 0x0A] then [st] else [])"
| "run Eps st = [st]"

fun re_search_from :: "re \<Rightarrow> nat \<Rightarrow> string \<Rightarrow> mstate option" where
  "re_search_from r k [] =
     (case run r \<lparr>pos = k, rest = [], caps = Map.empty\<rparr> of [] \<Rightarrow> None | m # _ \<Rightarrow> Some m)"
| "re_search_from r k (c # cs) =
     (case run r \<lparr>pos = k, rest = c # cs, caps = Map.empty\<rparr> of
        [] \<Rightarrow> re_search_from r (Suc k) cs
      | m # _ \<Rightarrow> Some m)"

definition re_search :: "re \<Rightarrow> string \<Rightarrow> mstate option" where
  \<comment> \<open>\<open>re.search\<close>: the first start position with a match\<close>
  "re_search r s = re_search_from r 0 s"

definition re_match :: "re \<Rightarrow> string \<Rightarrow> mstate option" where
  \<comment> \<open>\<open>re.match\<close>: a match at position 0 only\<close>
  "re_match r s =
     (case run r \<lparr>pos = 0, rest = s, caps = Map.empty\<rparr> of [] \<Rightarrow> None | m # _ \<Rightarrow> Some m)"

definition ci :: "(char \<Rightarrow> bool) \<Rightarrow> char \<Rightarrow> bool" where
  \<comment> \<open>a class under \<open>re.I\<close>: a character matches when one of its cases does\<close>
  "ci P c \<longleftrightarrow> P c \<or> P (py_lower_char c) \<or> P (py_upper_char c)"

definition re_digit :: "char \<Rightarrow> bool" where
  \<comment> \<open>\<open>\d\<close>: below U+0100 the decimal digits are 0 to 9\<close>
  "re_digit c \<longleftrightarrow> code_in 0x30 0x39 c"

fun cats :: "re list \<Rightarrow> re" where
  "cats [] = Eps"
| "cats [r] = r"
| "cats (r # r' # rs) = Cat r (cats (r' # rs))"

fun alts :: "re list \<Rightarrow> re" where
  "alts [] = Eps"
| "alts [r] = r"
| "alts (r # r' # rs) = Alt r (alts (r' # rs))"

definition one :: "bool \<Rightarrow> string \<Rightarrow> re" where
  \<comment> \<open>one character out of \<open>cs\<close>, under \<open>re.I\<close> when the flag is set\<close>
  "one icase cs = Cls (if icase then ci (List.member cs) else List.member cs)"

definition lit :: "bool \<Rightarrow> string \<Rightarrow> re" where
  \<comment> \<open>a literal word\<close>
  "lit icase w = cats (map (\<lambda>c. one icase [c]) w)"

definition group :: "mstate \<Rightarrow> nat \<Rightarrow> string option" where
  \<comment> \<open>\<open>m.group(i)\<close>; \<open>None\<close> for a group that took no part in the match\<close>
  "group m i = caps m i"

section \<open>Dates\<close>

text \<open>
  \<open>datetime.date\<close> as year, month and day of the proleptic Gregorian calendar.
  \<open>mk_date\<close> is the constructor \<open>dt.date(y, m, d)\<close>, \<open>None\<close> standing for its
  \<open>ValueError\<close>. Adding days steps through the calendar and stops, as Python does, at
  31 December 9999.
\<close>

record date =
  d_year :: nat
  d_month :: nat
  d_day :: nat

definition is_leap :: "nat \<Rightarrow> bool" where
  "is_leap y \<longleftrightarrow> y mod 4 = 0 \<and> (if y mod 100 = 0 then y mod 400 = 0 else True)"

definition days_in_month :: "nat \<Rightarrow> nat \<Rightarrow> nat" where
  "days_in_month y m =
     (if m = 2 then (if is_leap y then 29 else 28)
      else if List.member [4, 6, 9, 11] m then 30 else 31)"

definition mk_date :: "nat \<Rightarrow> nat \<Rightarrow> nat \<Rightarrow> date option" where
  "mk_date y m d =
     (if 1 \<le> y \<and> y \<le> 9999 \<and> 1 \<le> m \<and> m \<le> 12 \<and> 1 \<le> d \<and> d \<le> days_in_month y m
      then Some \<lparr>d_year = y, d_month = m, d_day = d\<rparr> else None)"

definition next_day :: "date \<Rightarrow> date option" where
  \<comment> \<open>the day after; \<open>None\<close> past 31 December 9999, the last \<open>date\<close>\<close>
  "next_day d =
     (if d_day d < days_in_month (d_year d) (d_month d) then Some (d\<lparr>d_day := d_day d + 1\<rparr>)
      else if d_month d < 12 then Some (d\<lparr>d_month := d_month d + 1, d_day := 1\<rparr>)
      else if d_year d < 9999 then Some \<lparr>d_year = d_year d + 1, d_month = 1, d_day = 1\<rparr>
      else None)"

primrec add_days :: "date \<Rightarrow> nat \<Rightarrow> date option" where
  \<comment> \<open>\<open>d + dt.timedelta(days=n)\<close>; \<open>None\<close> is its \<open>OverflowError\<close>\<close>
  "add_days d 0 = Some d"
| "add_days d (Suc n) = (case next_day d of None \<Rightarrow> None | Some d' \<Rightarrow> add_days d' n)"

fun digits_of :: "nat \<Rightarrow> nat \<Rightarrow> string" where
  \<comment> \<open>the last \<open>k\<close> decimal digits of \<open>n\<close>\<close>
  "digits_of 0 n = []"
| "digits_of (Suc k) n = digits_of k (n div 10) @ [char_of (48 + n mod 10)]"

fun decimal :: "nat \<Rightarrow> string" where
  \<comment> \<open>\<open>str(n)\<close>\<close>
  "decimal n = (if n < 10 then [char_of (48 + n)] else decimal (n div 10) @ [char_of (48 + n mod 10)])"

declare decimal.simps [simp del]

definition fmt_date :: "date \<Rightarrow> string" where
  \<comment> \<open>\<open>f"{day:%Y%m%d}"\<close>; \<open>%Y\<close> is the year without padding, as the C library of the
      platform formats it, the month and the day have two digits\<close>
  "fmt_date d = decimal (d_year d) @ digits_of 2 (d_month d) @ digits_of 2 (d_day d)"

definition FR_MONTHS :: "(string \<times> nat) list" where
  "FR_MONTHS =
     [(''janvier'', 1), (''f'' @ [CHR 0xE9] @ ''vrier'', 2), (''fevrier'', 2), (''mars'', 3),
      (''avril'', 4), (''mai'', 5), (''juin'', 6), (''juillet'', 7),
      (''ao'' @ [CHR 0xFB] @ ''t'', 8), (''aout'', 8), (''septembre'', 9), (''octobre'', 10),
      (''novembre'', 11), (''d'' @ [CHR 0xE9] @ ''cembre'', 12), (''decembre'', 12)]"

definition DOW_FR :: "string list" where
  "DOW_FR = [''lundi'', ''mardi'', ''mercredi'', ''jeudi'', ''vendredi'', ''samedi'', ''dimanche'']"

section \<open>Floating-point numbers\<close>

text \<open>
  A Python \<open>float\<close> is a binary64 number. A finite one is modelled by its exact value, a
  rational number; the infinities and the not-a-number are values of their own. An
  arithmetic operation takes the exact result and rounds it to the nearest binary64
  number, ties to the even significand (\<open>rnd64\<close>), as IEEE 754 prescribes; \<open>fmod\<close> and
  \<open>floor\<close> are exact. A zero has no sign in the model: the source never looks at it.
\<close>

datatype pyfloat = Fin rat | PInf | NInf | NaN

datatype py_error = ValueError | OverflowError

definition pow2 :: "int \<Rightarrow> rat" where
  "pow2 k = (if 0 \<le> k then 2 ^ nat k else 1 / 2 ^ nat (- k))"

definition ilog2 :: "rat \<Rightarrow> int" where
  \<comment> \<open>the binary exponent of a positive number: \<open>pow2 (ilog2 x) \<le> x < pow2 (ilog2 x + 1)\<close>\<close>
  "ilog2 x =
     (let d = bitlen (fst (quotient_of x)) - bitlen (snd (quotient_of x))
      in if pow2 d \<le> x then d else d - 1)"

definition round_half_even :: "rat \<Rightarrow> int" where
  "round_half_even q =
     (if q - of_int \<lfloor>q\<rfloor> < 1 / 2 then \<lfloor>q\<rfloor>
      else if 1 / 2 < q - of_int \<lfloor>q\<rfloor> then \<lfloor>q\<rfloor> + 1
      else if even \<lfloor>q\<rfloor> then \<lfloor>q\<rfloor> else \<lfloor>q\<rfloor> + 1)"

definition ulp_of :: "rat \<Rightarrow> rat" where
  \<comment> \<open>the spacing of binary64 numbers around \<open>x\<close>: 53 significant bits, and the fixed
      spacing of the subnormal numbers below \<open>pow2 (- 1022)\<close>\<close>
  "ulp_of x = pow2 (max (ilog2 \<bar>x\<bar>) (- 1022) - 52)"

definition rnd64 :: "rat \<Rightarrow> rat" where
  "rnd64 x = (if x = 0 then 0 else ulp_of x * of_int (round_half_even (x / ulp_of x)))"

definition to_float :: "rat \<Rightarrow> pyfloat" where
  \<comment> \<open>the float an operation returns whose exact result is \<open>x\<close>\<close>
  "to_float x =
     (if pow2 1024 \<le> \<bar>rnd64 x\<bar> then (if 0 < x then PInf else NInf) else Fin (rnd64 x))"

definition c_fmod :: "rat \<Rightarrow> rat \<Rightarrow> rat" where
  \<comment> \<open>C's \<open>fmod\<close>, exact: the remainder has the sign of \<open>x\<close>\<close>
  "c_fmod x y = x - y * of_int (if 0 \<le> x / y then \<lfloor>x / y\<rfloor> else \<lceil>x / y\<rceil>)"

definition f_mod100 :: "pyfloat \<Rightarrow> pyfloat" where
  \<comment> \<open>\<open>left % 100.0\<close>: \<open>fmod\<close>, and the divisor added to a negative remainder\<close>
  "f_mod100 v =
     (case v of
        Fin x \<Rightarrow> if c_fmod x 100 < 0 then to_float (c_fmod x 100 + 100) else Fin (c_fmod x 100)
      | _ \<Rightarrow> NaN)"

definition f_floordiv100 :: "pyfloat \<Rightarrow> pyfloat" where
  \<comment> \<open>\<open>left // 100.0\<close>, as CPython computes it: the quotient of \<open>left - mod\<close>, one less
      for a negative remainder, snapped to the nearest integral value\<close>
  "f_floordiv100 v =
     (case v of
        Fin x \<Rightarrow>
          (let m = c_fmod x 100;
               d0 = rnd64 (rnd64 (x - m) / 100);
               d = (if m < 0 then rnd64 (d0 - 1) else d0)
           in if d = 0 then Fin 0
              else if 1 / 2 < rnd64 (d - of_int \<lfloor>d\<rfloor>) then Fin (rnd64 (of_int \<lfloor>d\<rfloor> + 1))
              else Fin (of_int \<lfloor>d\<rfloor>))
      | _ \<Rightarrow> NaN)"

definition f_int :: "pyfloat \<Rightarrow> py_error + int" where
  \<comment> \<open>\<open>int(x)\<close>: truncation; it raises on a not-a-number and on an infinity\<close>
  "f_int v =
     (case v of
        Fin x \<Rightarrow> Inr (if 0 \<le> x then \<lfloor>x\<rfloor> else \<lceil>x\<rceil>)
      | NaN \<Rightarrow> Inl ValueError
      | _ \<Rightarrow> Inl OverflowError)"

definition f_sub :: "pyfloat \<Rightarrow> pyfloat \<Rightarrow> pyfloat" where
  \<comment> \<open>\<open>a - b\<close>\<close>
  "f_sub a b =
     (case (a, b) of
        (Fin x, Fin y) \<Rightarrow> to_float (x - y)
      | (NaN, _) \<Rightarrow> NaN
      | (_, NaN) \<Rightarrow> NaN
      | (PInf, PInf) \<Rightarrow> NaN
      | (NInf, NInf) \<Rightarrow> NaN
      | (PInf, _) \<Rightarrow> PInf
      | (NInf, _) \<Rightarrow> NInf
      | (_, PInf) \<Rightarrow> NInf
      | (_, NInf) \<Rightarrow> PInf)"

definition f_abs :: "pyfloat \<Rightarrow> pyfloat" where
  "f_abs a = (case a of Fin x \<Rightarrow> Fin \<bar>x\<bar> | NaN \<Rightarrow> NaN | _ \<Rightarrow> PInf)"

definition f_less :: "pyfloat \<Rightarrow> pyfloat \<Rightarrow> bool" where
  \<comment> \<open>\<open>a < b\<close>: false as soon as one side is a not-a-number\<close>
  "f_less a b =
     (case (a, b) of
        (Fin x, Fin y) \<Rightarrow> x < y
      | (NaN, _) \<Rightarrow> False
      | (_, NaN) \<Rightarrow> False
      | (NInf, NInf) \<Rightarrow> False
      | (NInf, _) \<Rightarrow> True
      | (PInf, _) \<Rightarrow> False
      | (_, PInf) \<Rightarrow> True
      | (_, NInf) \<Rightarrow> False)"

definition float_of_literal :: "rat \<Rightarrow> pyfloat" where
  \<comment> \<open>\<open>float(s)\<close> for a decimal literal \<open>s\<close> of exact value \<open>q\<close>: the nearest float\<close>
  "float_of_literal q = to_float q"

section \<open>The document\<close>

text \<open>
  The source reads the page through BeautifulSoup. A node is modelled by what the source
  reads from it: the result of \<open>parse_pct_left\<close> on its style (the float of the
  percentage, \<open>None\<close> when the style has none), its \<open>id\<close>, and its text nodes in
  document order. \<open>find_divs_by_class\<close> gives the nodes of a class in document order:
  the fields \<open>jours\<close> and \<open>cases\<close> of a document.
\<close>

record jour =
  j_left :: "pyfloat option"
  j_td :: "string list option"  \<comment> \<open>the text nodes of the first \<open>td.TCJour\<close> inside, if any\<close>
  j_strings :: "string list"

record casediv =
  c_id :: string
  c_left :: "pyfloat option"
  c_strings :: "string list"

record document =
  jours :: "jour list"
  cases :: "casediv list"

definition bs_get_text :: "string \<Rightarrow> string list \<Rightarrow> string" where
  \<comment> \<open>\<open>node.get_text(sep, strip=True)\<close>: the stripped text nodes that are not empty, joined\<close>
  "bs_get_text sep strs = py_join sep (filter (\<lambda>s. s \<noteq> []) (map py_strip strs))"

definition jour_label :: "jour \<Rightarrow> string" where
  "jour_label j =
     (case j_td j of Some t \<Rightarrow> bs_get_text '' '' t | None \<Rightarrow> bs_get_text '' '' (j_strings j))"

definition panel_of :: "pyfloat \<Rightarrow> py_error + int" where
  \<comment> \<open>\<open>int(left // 100.0)\<close>\<close>
  "panel_of left = f_int (f_floordiv100 left)"

section \<open>Day headers\<close>

definition month_letter :: "char \<Rightarrow> bool" where
  \<comment> \<open>the class of a to z and the ten accented letters of the pattern\<close>
  "month_letter c \<longleftrightarrow> code_in 0x61 0x7A c \<or>
     List.member [CHR 0xE9, CHR 0xE8, CHR 0xEA, CHR 0xE0, CHR 0xE2, CHR 0xEE, CHR 0xF4,
                  CHR 0xFB, CHR 0xF9, CHR 0xE7] c"

definition day_header_re :: re where
  "day_header_re =
     cats [Grp 1 (alts (map (lit True) DOW_FR)),
           Rep 1 None (Cls py_isspace),
           Grp 2 (Rep 1 (Some 2) (Cls re_digit)),
           Rep 1 None (Cls py_isspace),
           Grp 3 (Rep 1 None (Cls (ci month_letter)))]"

definition strip_accents :: "string \<Rightarrow> string" where
  \<comment> \<open>the ten \<open>replace\<close> calls on the month token, in the source's order\<close>
  "strip_accents s =
     py_replace (CHR 0xE7) ''c'' (py_replace (CHR 0xF9) ''u'' (py_replace (CHR 0xFB) ''u''
     (py_replace (CHR 0xF4) ''o'' (py_replace (CHR 0xEE) ''i'' (py_replace (CHR 0xE2) ''a''
     (py_replace (CHR 0xE0) ''a'' (py_replace (CHR 0xEA) ''e'' (py_replace (CHR 0xE8) ''e''
     (py_replace (CHR 0xE9) ''e'' s)))))))))"

definition parse_day_header_date :: "string \<Rightarrow> date option" where
  "parse_day_header_date label =
     (let lab = py_lower (text_clean label) in
      case re_search day_header_re lab of
        None \<Rightarrow> None
      | Some m \<Rightarrow>
          (case (group m 2, group m 3) of
             (Some g2, Some g3) \<Rightarrow>
               (let day = py_int g2; mon_str = strip_accents g3
                in case map_of FR_MONTHS mon_str of
                     None \<Rightarrow> None
                   | Some month \<Rightarrow> if month = 0 then None else mk_date 1900 month day)
           | _ \<Rightarrow> None))"

text \<open>
  Groups 2 and 3 take part in every match of the pattern, so the last branch is never
  taken; it is there because a group is an optional value in the model.
\<close>

section \<open>Panel selection\<close>

type_synonym panel_item = "pyfloat \<times> string \<times> (nat \<times> nat)"

fun dict_append :: "('k \<times> 'v list) list \<Rightarrow> 'k \<Rightarrow> 'v \<Rightarrow> ('k \<times> 'v list) list" where
  \<comment> \<open>\<open>d.setdefault(k, []).append(v)\<close> on a dict kept in insertion order\<close>
  "dict_append [] k v = [(k, [v])]"
| "dict_append ((k', vs) # kvs) k v =
     (if k' = k then (k', vs @ [v]) # kvs else (k', vs) # dict_append kvs k v)"

fun collect_panels ::
  "jour list \<Rightarrow> (int \<times> panel_item list) list \<Rightarrow> py_error + (int \<times> panel_item list) list" where
  \<comment> \<open>the first loop of \<open>week_panel_index_for_target\<close>; \<open>Inl\<close> when \<open>int(left // 100.0)\<close>
      raises\<close>
  "collect_panels [] panels = Inr panels"
| "collect_panels (j # js) panels =
     (case j_left j of
        None \<Rightarrow> collect_panels js panels
      | Some left \<Rightarrow>
          (case panel_of left of
             Inl e \<Rightarrow> Inl e
           | Inr panel \<Rightarrow>
               (case parse_day_header_date (jour_label j) of
                  None \<Rightarrow> collect_panels js panels
                | Some d \<Rightarrow>
                    collect_panels js
                      (dict_append panels panel (left, jour_label j, (d_month d, d_day d))))))"

fun days_md :: "date \<Rightarrow> nat list \<Rightarrow> py_error + (nat \<times> nat) list" where
  \<comment> \<open>the (month, day) of \<open>target_monday + dt.timedelta(days=i)\<close> for the \<open>i\<close> of a range\<close>
  "days_md target_monday [] = Inr []"
| "days_md target_monday (i # ns) =
     (case add_days target_monday i of
        None \<Rightarrow> Inl OverflowError
      | Some d \<Rightarrow>
          (case days_md target_monday ns of
             Inl e \<Rightarrow> Inl e
           | Inr mds \<Rightarrow> Inr ((d_month d, d_day d) # mds)))"

definition target_days_md :: "date \<Rightarrow> py_error + (nat \<times> nat) list" where
  "target_days_md target_monday = days_md target_monday [0..<7]"

definition panel_score :: "(nat \<times> nat) list \<Rightarrow> panel_item list \<Rightarrow> int" where
  \<comment> \<open>\<open>len(md_in_panel & target_days_md)\<close>\<close>
  "panel_score target items = int (card (set (map (\<lambda>(_, _, md). md) items) \<inter> set target))"

fun pick_best ::
  "(nat \<times> nat) list \<Rightarrow> (int \<times> panel_item list) list \<Rightarrow> int option \<Rightarrow> int \<Rightarrow> int option" where
  \<comment> \<open>the second loop, from \<open>best_panel\<close> and \<open>best_score\<close>\<close>
  "pick_best target [] best_panel best_score = best_panel"
| "pick_best target ((p, items) # ps) best_panel best_score =
     (if panel_score target items > best_score
      then pick_best target ps (Some p) (panel_score target items)
      else pick_best target ps best_panel best_score)"

definition week_panel_index_for_target :: "document \<Rightarrow> date \<Rightarrow> py_error + int option" where
  "week_panel_index_for_target soup target_monday =
     (case collect_panels (jours soup) [] of
        Inl e \<Rightarrow> Inl e
      | Inr panels \<Rightarrow>
          if panels = [] then Inr None
          else (case target_days_md target_monday of
                  Inl e \<Rightarrow> Inl e
                | Inr target \<Rightarrow> Inr (pick_best target panels None (- 1))))"

fun headers_in_panel :: "jour list \<Rightarrow> int \<Rightarrow> py_error + (pyfloat \<times> string) list" where
  \<comment> \<open>the loop of \<open>day_headers_for_panel\<close>\<close>
  "headers_in_panel [] panel_index = Inr []"
| "headers_in_panel (j # js) panel_index =
     (case j_left j of
        None \<Rightarrow> headers_in_panel js panel_index
      | Some left \<Rightarrow>
          (case panel_of left of
             Inl e \<Rightarrow> Inl e
           | Inr p \<Rightarrow>
               (case headers_in_panel js panel_index of
                  Inl e \<Rightarrow> Inl e
                | Inr res \<Rightarrow>
                    Inr (if p \<noteq> panel_index then res
                         else (left, text_clean (jour_label j)) # res))))"

definition float_key :: "pyfloat \<Rightarrow> rat" where
  \<comment> \<open>the value of a finite float, the sort key; every offset that reaches the sort is
      finite, since its panel index was computed\<close>
  "float_key v = (case v of Fin x \<Rightarrow> x | _ \<Rightarrow> 0)"

definition day_headers_for_panel :: "document \<Rightarrow> int \<Rightarrow> py_error + (pyfloat \<times> string) list" where
  \<comment> \<open>\<open>sorted\<close> is stable, as \<open>sort_key\<close> is\<close>
  "day_headers_for_panel soup panel_index =
     (case headers_in_panel (jours soup) panel_index of
        Inl e \<Rightarrow> Inl e
      | Inr res \<Rightarrow> Inr (sort_key (\<lambda>h. float_key (fst h)) res))"

fun cases_in_panel :: "casediv list \<Rightarrow> int \<Rightarrow> py_error + casediv list" where
  \<comment> \<open>the loop of \<open>extract_cases_for_panel\<close>\<close>
  "cases_in_panel [] panel_index = Inr []"
| "cases_in_panel (c # cs) panel_index =
     (if List.member [''avant'', ''apres''] (py_lower (c_id c)) then cases_in_panel cs panel_index
      else case c_left c of
        None \<Rightarrow> cases_in_panel cs panel_index
      | Some left \<Rightarrow>
          (case panel_of left of
             Inl e \<Rightarrow> Inl e
           | Inr p \<Rightarrow>
               (case cases_in_panel cs panel_index of
                  Inl e \<Rightarrow> Inl e
                | Inr out \<Rightarrow> Inr (if p \<noteq> panel_index then out else c # out))))"

definition extract_cases_for_panel :: "document \<Rightarrow> int \<Rightarrow> py_error + casediv list" where
  "extract_cases_for_panel soup panel_index = cases_in_panel (cases soup) panel_index"

section \<open>Case fields\<close>

definition clock_re :: re where
  \<comment> \<open>\<open>^(\d{1,2}):(\d{2})$\<close>\<close>
  "clock_re =
     cats [Bol, Grp 1 (Rep 1 (Some 2) (Cls re_digit)), one False '':'',
           Grp 2 (Rep 2 (Some 2) (Cls re_digit)), Eol]"

definition time_to_minutes :: "string \<Rightarrow> nat" where
  \<comment> \<open>\<open>_time_to_minutes\<close>\<close>
  "time_to_minutes s =
     (if s = [] then 99999
      else case re_match clock_re (py_replace (CHR ''h'') '':'' s) of
             None \<Rightarrow> 99999
           | Some m \<Rightarrow>
               (case (group m 1, group m 2) of
                  (Some g1, Some g2) \<Rightarrow> py_int g1 * 60 + py_int g2
                | _ \<Rightarrow> 99999))"

definition hhmm :: "bool \<Rightarrow> re" where
  \<comment> \<open>\<open>\d{1,2}[:h]\d{2}\<close>\<close>
  "hhmm icase =
     cats [Rep 1 (Some 2) (Cls re_digit), one icase '':h'', Rep 2 (Some 2) (Cls re_digit)]"

definition time_pat :: "bool \<Rightarrow> re" where
  \<comment> \<open>\<open>(\d{1,2}[:h]\d{2})\s*-\s*(\d{1,2}[:h]\d{2})\<close>, the flag being \<open>re.I\<close>\<close>
  "time_pat icase =
     cats [Grp 1 (hhmm icase), Rep 0 None (Cls py_isspace), one False ''-'',
           Rep 0 None (Cls py_isspace), Grp 2 (hhmm icase)]"

definition room_char :: "char \<Rightarrow> bool" where
  \<comment> \<open>\<open>[A-Za-z0-9_\- ]\<close>\<close>
  "room_char c \<longleftrightarrow> code_in 0x41 0x5A c \<or> code_in 0x61 0x7A c \<or> code_in 0x30 0x39 c \<or>
     List.member ''_- '' c"

definition salle_re :: re where
  \<comment> \<open>\<open>^salle\s*:?\s*([A-Za-z0-9_\- ]+)(?:\(([^)]+)\))?$\<close> under \<open>re.I\<close>\<close>
  "salle_re =
     cats [Bol, lit True ''salle'', Rep 0 None (Cls py_isspace), Rep 0 (Some 1) (one True '':''),
           Rep 0 None (Cls py_isspace), Grp 1 (Rep 1 None (Cls (ci room_char))),
           Rep 0 (Some 1)
             (cats [one True ''('', Grp 2 (Rep 1 None (Cls (ci (\<lambda>c. c \<noteq> CHR '')'')))),
                    one True '')'']),
           Eol]"

definition name_char :: "char \<Rightarrow> bool" where
  \<comment> \<open>\<open>[A-Za-z\<close>U+00C0-U+00D6 U+00D8-U+00F6 U+00F8-U+00FF\<open>' \-]\<close>\<close>
  "name_char c \<longleftrightarrow> code_in 0x41 0x5A c \<or> code_in 0x61 0x7A c \<or> code_in 0xC0 0xD6 c \<or>
     code_in 0xD8 0xF6 c \<or> code_in 0xF8 0xFF c \<or> List.member [CHR 0x27, CHR 0x20, CHR 0x2D] c"

definition teacher_re :: re where
  \<comment> \<open>\<open>^[...]{3,}$\<close>\<close>
  "teacher_re = cats [Bol, Rep 3 None (Cls name_char), Eol]"

definition reserved :: "string \<Rightarrow> bool" where
  \<comment> \<open>\<open>low.startswith(("salle", "site", "socle ", "promotion ", "groupe "))\<close>\<close>
  "reserved low \<longleftrightarrow>
     list_ex (py_startswith low) [''salle'', ''site'', ''socle '', ''promotion '', ''groupe '']"

fun find_room :: "string list \<Rightarrow> string \<times> string" where
  \<comment> \<open>the loop that sets \<open>room\<close> and \<open>site\<close>\<close>
  "find_room [] = ([], [])"
| "find_room (l # ls) =
     (case re_search salle_re l of
        None \<Rightarrow> find_room ls
      | Some mm \<Rightarrow> (py_strip (or_else (group mm 1) []), py_strip (or_else (group mm 2) [])))"

fun pick_title :: "string list \<Rightarrow> string" where
  "pick_title [] = []"
| "pick_title (s # ls) =
     (if re_search (time_pat False) (py_lower s) \<noteq> None then pick_title ls
      else if reserved (py_lower s) then pick_title ls
      else s)"

fun find_teacher :: "string \<Rightarrow> bool \<Rightarrow> string list \<Rightarrow> string" where
  \<comment> \<open>the last loop; the flag is \<open>seen_title\<close>\<close>
  "find_teacher title seen_title [] = []"
| "find_teacher title seen_title (s # ls) =
     (if \<not> seen_title then find_teacher title (s = title) ls
      else if re_search (time_pat False) (py_lower s) \<noteq> None \<or> reserved (py_lower s)
        then find_teacher title True ls
      else if re_match teacher_re s \<noteq> None then py_strip s
      else find_teacher title True ls)"

type_synonym event = "(string \<times> string) list"

definition case_payload :: "casediv \<Rightarrow> event" where
  "case_payload c =
     (let txt_full = bs_get_text [CHR 0x0A] (c_strings c);
          lines = filter (\<lambda>l. l \<noteq> []) (map py_strip (py_splitlines txt_full));
          full = py_join [CHR 0x0A] lines;
          m = re_search (time_pat True) full;
          start = (case m of None \<Rightarrow> []
                   | Some m \<Rightarrow> py_replace (CHR ''h'') '':'' (or_else (group m 1) []));
          end = (case m of None \<Rightarrow> []
                 | Some m \<Rightarrow> py_replace (CHR ''h'') '':'' (or_else (group m 2) []));
          (room, site) = find_room lines;
          title = pick_title lines;
          teacher = find_teacher title False lines
      in [(''raw'', text_clean txt_full), (''start'', start), (''end'', end), (''room'', room),
          (''site'', site), (''teacher'', teacher), (''title'', title)])"

section \<open>Day assignment and the week assembler\<close>

fun nearest_loop ::
  "pyfloat \<Rightarrow> (pyfloat \<times> string) list \<Rightarrow> string option \<Rightarrow> pyfloat \<Rightarrow> string option" where
  \<comment> \<open>the loop of \<open>nearest_day_label_for_case\<close>, from \<open>best\<close> and \<open>best_delta\<close>\<close>
  "nearest_loop left_mod [] best best_delta = best"
| "nearest_loop left_mod ((dl, label) # hs) best best_delta =
     (if f_less (f_abs (f_sub left_mod (f_mod100 dl))) best_delta
      then nearest_loop left_mod hs (Some label) (f_abs (f_sub left_mod (f_mod100 dl)))
      else nearest_loop left_mod hs best best_delta)"

definition case_left :: "casediv \<Rightarrow> pyfloat" where
  \<comment> \<open>\<open>parse_pct_left(case.get("style", "")) or 0.0\<close>\<close>
  "case_left c = (case c_left c of None \<Rightarrow> Fin 0 | Some l \<Rightarrow> l)"

definition nearest_day_label_for_case :: "casediv \<Rightarrow> (pyfloat \<times> string) list \<Rightarrow> string option" where
  "nearest_day_label_for_case c day_headers =
     nearest_loop (f_mod100 (case_left c)) day_headers None (Fin 1000000000)"

type_synonym week_map = "(string \<times> event list) list"

fun dict_init :: "week_map \<Rightarrow> string list \<Rightarrow> week_map" where
  \<comment> \<open>\<open>{label: [] for _, label in day_headers}\<close>: a label met again keeps its place\<close>
  "dict_init d [] = d"
| "dict_init d (l # ls) =
     dict_init (if List.member (map fst d) l then map (\<lambda>(k, v). if k = l then (k, []) else (k, v)) d
                else d @ [(l, [])]) ls"

definition forced_event :: event where
  \<comment> \<open>the dict literal of the "pas de cours" branch\<close>
  "forced_event =
     [(''raw'', ''Pas de cours cette semaine''), (''start'', []), (''end'', []), (''room'', []),
      (''teacher'', []), (''title'', [])]"

fun place_cases :: "casediv list \<Rightarrow> (pyfloat \<times> string) list \<Rightarrow> string \<Rightarrow> week_map \<Rightarrow> week_map" where
  \<comment> \<open>the loop over the cases; \<open>first_label\<close> is \<open>day_headers[0][1]\<close>\<close>
  "place_cases [] day_headers first_label by_day = by_day"
| "place_cases (c # cs) day_headers first_label by_day =
     (if py_contains ''pas de cours'' (py_lower (text_clean (bs_get_text '' '' (c_strings c))))
      then place_cases cs day_headers first_label (dict_append by_day first_label forced_event)
      else place_cases cs day_headers first_label
             (dict_append by_day (or_else (nearest_day_label_for_case c day_headers) first_label)
                (case_payload c)))"

definition start_of :: "event \<Rightarrow> string" where
  \<comment> \<open>\<open>ev.get("start", "")\<close>\<close>
  "start_of ev = (case map_of ev ''start'' of None \<Rightarrow> [] | Some s \<Rightarrow> s)"

definition start_key :: "event \<Rightarrow> nat" where
  \<comment> \<open>the sort key \<open>_time_to_minutes(ev.get("start", ""))\<close>\<close>
  "start_key ev = time_to_minutes (start_of ev)"

definition grouped :: "casediv list \<Rightarrow> (pyfloat \<times> string) list \<Rightarrow> week_map" where
  \<comment> \<open>\<open>by_day\<close> as it stands before the sort\<close>
  "grouped cs day_headers =
     (case day_headers of [] \<Rightarrow> []
      | (_, first_label) # _ \<Rightarrow>
          place_cases cs day_headers first_label (dict_init [] (map snd day_headers)))"

definition build_week_map :: "casediv list \<Rightarrow> (pyfloat \<times> string) list \<Rightarrow> week_map" where
  "build_week_map cs day_headers =
     (if day_headers = [] then []
      else map (\<lambda>(label, evs). (label, sort_key start_key evs)) (grouped cs day_headers))"

section \<open>One week of the main loop\<close>

datatype report = NoHeaders | Selected int nat nat

definition week_step ::
  "document \<Rightarrow> date \<Rightarrow> (date \<times> week_map) list \<Rightarrow>
     py_error + report \<times> (date \<times> week_map) list" where
  \<comment> \<open>the body of the loop of \<open>main\<close> once the page is fetched: what it prints about the
      panel, and \<open>weeks_payload\<close> afterwards; \<open>Inl\<close> for an exception, which ends the run\<close>
  "week_step soup monday weeks_payload =
     (case week_panel_index_for_target soup monday of
        Inl e \<Rightarrow> Inl e
      | Inr None \<Rightarrow> Inr (NoHeaders, weeks_payload)
      | Inr (Some panel) \<Rightarrow>
          (case day_headers_for_panel soup panel of
             Inl e \<Rightarrow> Inl e
           | Inr day_headers \<Rightarrow>
               (case extract_cases_for_panel soup panel of
                  Inl e \<Rightarrow> Inl e
                | Inr cs \<Rightarrow>
                    Inr (Selected panel (length day_headers) (length cs),
                         weeks_payload @ [(monday, build_week_map cs day_headers)]))))"

section \<open>Auxiliary facts\<close>

lemma first_min_index:
  fixes f :: "'a \<Rightarrow> 'b :: linorder"
  assumes "xs \<noteq> []"
  shows "\<exists>i<length xs. (\<forall>k<length xs. f (xs ! i) \<le> f (xs ! k)) \<and> (\<forall>k<i. f (xs ! i) < f (xs ! k))"
proof -
  define m where "m = Min (f ` set xs)"
  have fin: "finite (f ` set xs)" "f ` set xs \<noteq> {}" using assms by auto
  then have "m \<in> f ` set xs" unfolding m_def by (rule Min_in)
  then obtain j where j: "j < length xs" "f (xs ! j) = m"
    by (auto simp: in_set_conv_nth)
  define i where "i = (LEAST j. j < length xs \<and> f (xs ! j) = m)"
  have i: "i < length xs \<and> f (xs ! i) = m"
    unfolding i_def by (rule LeastI [of _ j]) (use j in simp)
  have least: "\<And>k. k < i \<Longrightarrow> \<not> (k < length xs \<and> f (xs ! k) = m)"
    unfolding i_def by (rule not_less_Least)
  have le: "\<And>k. k < length xs \<Longrightarrow> m \<le> f (xs ! k)"
    unfolding m_def using fin by (intro Min_le) auto
  have "\<forall>k<i. f (xs ! i) < f (xs ! k)"
  proof (intro allI impI)
    fix k assume k: "k < i"
    with i have kl: "k < length xs" by simp
    from least [OF k] kl have "f (xs ! k) \<noteq> m" by simp
    with le [OF kl] i show "f (xs ! i) < f (xs ! k)" by simp
  qed
  with i le show ?thesis by auto
qed


section \<open>The text normalizer\<close>

text \<open>
  What the normalizer is meant to do, written from its description and not from the code:
  the characters it touches are the space, the tab, the carriage return, the form feed,
  the vertical tab and the non-breaking space; a run of them becomes one space, and
  every other character, the newline among them, stays as it is. \<open>squeeze\<close> reads the
  text from the left and looks one character ahead. \<open>split_nl\<close> is \<open>s.split("\n")\<close>,
  the lines of a text when only the newline ends a line.
\<close>

definition soft :: "char \<Rightarrow> bool" where
  "soft c \<longleftrightarrow> List.member [CHR 0x20, CHR 0x09, CHR 0x0D, CHR 0x0C, CHR 0x0B, CHR 0xA0] c"

fun squeeze :: "string \<Rightarrow> string" where
  "squeeze [] = []"
| "squeeze [c] = [if soft c then CHR 0x20 else c]"
| "squeeze (c # d # cs) =
     (if soft c \<and> soft d then squeeze (d # cs)
      else (if soft c then CHR 0x20 else c) # squeeze (d # cs))"

fun split_nl :: "string \<Rightarrow> string list" where
  "split_nl [] = [[]]"
| "split_nl (c # cs) =
     (if c = CHR 0x0A then [] # split_nl cs
      else case split_nl cs of [] \<Rightarrow> [[c]] | l # ls \<Rightarrow> (c # l) # ls)"

lemma dropWhile_stop:
  "\<not> P y \<Longrightarrow> dropWhile P (xs @ y # ys) = dropWhile P xs @ y # ys"
  by (induction xs) auto

lemma soft_newline: "\<not> soft (CHR 0x0A)"
  by (simp add: soft_def)

lemma soft_is_space: "soft c \<Longrightarrow> py_isspace c"
  by (auto simp: soft_def py_isspace_def)

lemma squeeze_Cons:
  "squeeze (c # s) =
     (if soft c then (if s \<noteq> [] \<and> soft (hd s) then squeeze s else CHR 0x20 # squeeze s)
      else c # squeeze s)"
  by (cases s) auto

lemma nbsp_replace_map:
  "py_replace (CHR 0xA0) [CHR 0x20] s = map (\<lambda>c. if c = CHR 0xA0 then CHR 0x20 else c) s"
  by (induction s) (auto simp: py_replace_def)

lemma blank_after_replace:
  "re_class_blank (if c = CHR 0xA0 then CHR 0x20 else c) \<longleftrightarrow> soft c"
  by (auto simp: re_class_blank_def soft_def)

lemma re_sub_blank_run:
  "re_class_blank d \<Longrightarrow> re_sub_blank (d # t) = CHR 0x20 # re_sub_blank (dropWhile re_class_blank t)"
  by simp

lemma re_sub_blank_squeeze:
  "re_sub_blank (map (\<lambda>c. if c = CHR 0xA0 then CHR 0x20 else c) s) = squeeze s"
proof (induction s rule: squeeze.induct)
  case 1
  show ?case by simp
next
  case (2 c)
  show ?case using blank_after_replace [of c] by (auto simp: soft_def)
next
  case (3 c d cs)
  let ?g = "\<lambda>c. if c = CHR 0xA0 then CHR 0x20 else c"
  show ?case
  proof (cases "soft c")
    case False
    then have "\<not> re_class_blank (?g c)" "?g c = c"
      using blank_after_replace [of c] by (auto simp: soft_def)
    with 3 False show ?thesis by simp
  next
    case c: True
    then have bc: "re_class_blank (?g c)" using blank_after_replace [of c] by simp
    show ?thesis
    proof (cases "soft d")
      case True
      then have bd: "re_class_blank (?g d)" using blank_after_replace [of d] by simp
      have "re_sub_blank (map ?g (c # d # cs))
          = CHR 0x20 # re_sub_blank (dropWhile re_class_blank (map ?g cs))"
        using bc bd by simp
      also have "\<dots> = re_sub_blank (map ?g (d # cs))"
        using bd by simp
      finally show ?thesis using 3 c True by simp
    next
      case False
      then have bd: "\<not> re_class_blank (?g d)" using blank_after_replace [of d] by simp
      have "re_sub_blank (map ?g (c # d # cs)) = CHR 0x20 # re_sub_blank (map ?g (d # cs))"
        using bc bd by simp
      then show ?thesis using 3 c False by simp
    qed
  qed
qed

lemma text_clean_squeeze: "text_clean s = py_strip (squeeze s)"
  by (simp add: text_clean_def nbsp_replace_map re_sub_blank_squeeze)

lemma squeeze_append_newline:
  "squeeze (a @ CHR 0x0A # b) = squeeze a @ CHR 0x0A # squeeze b"
proof (induction a rule: squeeze.induct)
  case 1
  show ?case by (simp add: squeeze_Cons soft_newline)
next
  case (2 c)
  show ?case by (simp add: squeeze_Cons soft_newline)
next
  case (3 c d cs)
  then show ?case by (simp add: soft_newline)
qed

lemma squeeze_keeps_hard:
  "filter (\<lambda>c. \<not> soft c) (squeeze s) = filter (\<lambda>c. \<not> soft c) s"
  by (induction s rule: squeeze.induct) (auto simp: soft_def)

lemma split_nl_not_empty: "split_nl s \<noteq> []"
  by (induction s) (auto split: list.splits)

lemma split_nl_Cons:
  "split_nl (c # cs) =
     (if c = CHR 0x0A then [] # split_nl cs else (c # hd (split_nl cs)) # tl (split_nl cs))"
  using split_nl_not_empty [of cs] by (cases "split_nl cs") auto

declare split_nl.simps(2) [simp del]
declare split_nl_Cons [simp]

lemma split_nl_squeeze: "split_nl (squeeze s) = map squeeze (split_nl s)"
proof (induction s rule: squeeze.induct)
  case 1
  show ?case by simp
next
  case (2 c)
  show ?case by (auto simp: soft_def)
next
  case (3 c d cs)
  have ne: "split_nl cs \<noteq> []" by (rule split_nl_not_empty)
  have sp: "CHR 0x20 \<noteq> CHR 0x0A" by simp
  show ?case
  proof (cases "soft c")
    case False
    show ?thesis
    proof (cases "c = CHR 0x0A")
      case True
      with 3 False show ?thesis by simp
    next
      case nl: False
      have "split_nl (squeeze (c # d # cs)) = split_nl (c # squeeze (d # cs))"
        using False by simp
      also have "\<dots> = (c # hd (map squeeze (split_nl (d # cs)))) # tl (map squeeze (split_nl (d # cs)))"
        using nl 3 False by simp
      also have "\<dots> = map squeeze (split_nl (c # d # cs))"
        using nl False ne by (simp add: squeeze_Cons hd_map map_tl)
      finally show ?thesis .
    qed
  next
    case c: True
    then have cnl: "c \<noteq> CHR 0x0A" using soft_newline by auto
    show ?thesis
    proof (cases "soft d")
      case True
      then have dnl: "d \<noteq> CHR 0x0A" using soft_newline by auto
      have "split_nl (squeeze (c # d # cs)) = map squeeze (split_nl (d # cs))"
        using 3 c True by simp
      also have "\<dots> = map squeeze (split_nl (c # d # cs))"
        using cnl dnl c True by simp
      finally show ?thesis .
    next
      case False
      have "split_nl (squeeze (c # d # cs)) = split_nl (CHR 0x20 # squeeze (d # cs))"
        using c False by simp
      also have "\<dots> = (CHR 0x20 # hd (map squeeze (split_nl (d # cs)))) # tl (map squeeze (split_nl (d # cs)))"
        using 3 c False by simp
      also have "\<dots> = map squeeze (split_nl (c # d # cs))"
        using cnl c False ne by (auto simp: squeeze_Cons hd_map map_tl)
      finally show ?thesis .
    qed
  qed
qed

lemma solid_squeezed:
  assumes "\<exists>c\<in>set s. \<not> py_isspace c"
  shows "\<exists>c\<in>set (squeeze s). \<not> py_isspace c"
proof -
  from assms obtain c where c: "c \<in> set s" "\<not> py_isspace c" by blast
  then have "\<not> soft c" using soft_is_space by blast
  with c have "c \<in> set (filter (\<lambda>c. \<not> soft c) (squeeze s))"
    by (simp add: squeeze_keeps_hard)
  with c show ?thesis by auto
qed

lemma py_strip_around:
  assumes x: "\<exists>c\<in>set x. \<not> py_isspace c" and y: "\<exists>c\<in>set y. \<not> py_isspace c"
  shows "py_strip (x @ z # y) = py_lstrip x @ z # py_rstrip y"
proof -
  from x obtain c where "c \<in> set x" "\<not> py_isspace c" by blast
  then have l: "py_lstrip (x @ z # y) = py_lstrip x @ z # y"
    by (simp add: py_lstrip_def dropWhile_append1)
  from y obtain d where "d \<in> set (rev y)" "\<not> py_isspace d" by auto
  then have "dropWhile py_isspace (rev y @ z # rev (py_lstrip x))
      = dropWhile py_isspace (rev y) @ z # rev (py_lstrip x)"
    by (simp add: dropWhile_append1)
  then have "py_rstrip (py_lstrip x @ z # y) = py_lstrip x @ z # py_rstrip y"
    by (simp add: py_rstrip_def)
  with l show ?thesis by (simp add: py_strip_def)
qed

subsection \<open>Text that is already trimmed\<close>

definition trimmed :: "string \<Rightarrow> bool" where
  \<comment> \<open>no white space at either end\<close>
  "trimmed s \<longleftrightarrow> s = [] \<or> (\<not> py_isspace (hd s) \<and> \<not> py_isspace (last s))"

lemma py_strip_trimmed: "trimmed s \<Longrightarrow> py_strip s = s"
proof -
  assume t: "trimmed s"
  show ?thesis
  proof (cases "s = []")
    case True
    then show ?thesis by (simp add: py_strip_def py_lstrip_def py_rstrip_def)
  next
    case False
    with t have h: "\<not> py_isspace (hd s)" and l: "\<not> py_isspace (last s)"
      by (auto simp: trimmed_def)
    from False h have "dropWhile py_isspace s = s" by (cases s) auto
    moreover from False l have "dropWhile py_isspace (rev s) = rev s"
      by (cases "rev s") (auto simp: last_rev hd_rev [symmetric])
    ultimately show ?thesis by (simp add: py_strip_def py_lstrip_def py_rstrip_def)
  qed
qed

lemma trimmed_py_strip: "trimmed (py_strip s)"
proof -
  define u where "u = dropWhile py_isspace s"
  define v where "v = dropWhile py_isspace (rev u)"
  have ps: "py_strip s = rev v" by (simp add: py_strip_def py_lstrip_def py_rstrip_def u_def v_def)
  show ?thesis
  proof (cases "v = []")
    case True
    with ps show ?thesis by (simp add: trimmed_def)
  next
    case False
    then have hv: "\<not> py_isspace (hd v)" unfolding v_def by (simp add: hd_dropWhile)
    have "rev u = takeWhile py_isspace (rev u) @ v" by (simp add: v_def)
    then have "u = rev v @ rev (takeWhile py_isspace (rev u))"
      by (metis rev_append rev_rev_ident)
    with False have hu: "hd u = hd (rev v)" and une: "u \<noteq> []"
      by (metis hd_append2 rev_is_Nil_conv, metis Nil_is_append_conv rev_is_Nil_conv)
    from une have "\<not> py_isspace (hd u)" unfolding u_def by (simp add: hd_dropWhile)
    with hu hv False ps show ?thesis by (simp add: trimmed_def last_rev)
  qed
qed

lemma trimmed_join:
  "\<forall>x\<in>set xs. x \<noteq> [] \<and> trimmed x \<Longrightarrow> trimmed (py_join sep xs)"
proof (induction sep xs rule: py_join.induct)
  case (1 sep)
  show ?case by (simp add: trimmed_def)
next
  case (2 sep x)
  then show ?case by simp
next
  case (3 sep x y ys)
  then have t: "trimmed (py_join sep (y # ys))" and x: "x \<noteq> []" "trimmed x" by auto
  have ne: "py_join sep (y # ys) \<noteq> []" using 3(2) by (cases ys) auto
  from x t ne show ?case by (auto simp: trimmed_def)
qed

lemma trimmed_get_text: "trimmed (bs_get_text sep strs)"
  unfolding bs_get_text_def by (rule trimmed_join) (auto simp: trimmed_py_strip)

lemma squeeze_not_empty: "s \<noteq> [] \<Longrightarrow> squeeze s \<noteq> []"
  by (induction s rule: squeeze.induct) auto

lemma squeeze_last: "s \<noteq> [] \<Longrightarrow> \<not> soft (last s) \<Longrightarrow> last (squeeze s) = last s"
  by (induction s rule: squeeze.induct) (auto simp: squeeze_not_empty)

lemma squeeze_hd: "s \<noteq> [] \<Longrightarrow> \<not> soft (hd s) \<Longrightarrow> hd (squeeze s) = hd s"
  by (cases s) (auto simp: squeeze_Cons)

lemma trimmed_squeeze: "trimmed s \<Longrightarrow> trimmed (squeeze s)"
proof -
  assume t: "trimmed s"
  show ?thesis
  proof (cases "s = []")
    case True
    then show ?thesis by (simp add: trimmed_def)
  next
    case False
    with t have h: "\<not> py_isspace (hd s)" and l: "\<not> py_isspace (last s)"
      by (auto simp: trimmed_def)
    then have "\<not> soft (hd s)" "\<not> soft (last s)" using soft_is_space by blast+
    with False have "hd (squeeze s) = hd s" "last (squeeze s) = last s"
      by (simp_all add: squeeze_hd squeeze_last)
    with h l show ?thesis by (simp add: trimmed_def)
  qed
qed

lemma raw_field:
  "map_of (case_payload c) ''raw'' = Some (squeeze (bs_get_text [CHR 0x0A] (c_strings c)))"
proof -
  have "map_of (case_payload c) ''raw'' = Some (text_clean (bs_get_text [CHR 0x0A] (c_strings c)))"
    by (simp add: case_payload_def Let_def split_def)
  moreover have "py_strip (squeeze (bs_get_text [CHR 0x0A] (c_strings c)))
      = squeeze (bs_get_text [CHR 0x0A] (c_strings c))"
    by (rule py_strip_trimmed [OF trimmed_squeeze [OF trimmed_get_text]])
  ultimately show ?thesis by (simp add: text_clean_squeeze)
qed

definition two_line_case :: casediv where
  \<comment> \<open>a case with two text nodes, white space around and inside them\<close>
  "two_line_case =
     \<lparr>c_id = [], c_left = Some (Fin 10),
      c_strings = ['' Maths  '', ''Pierre'' @ [CHR 0x09, CHR 0xA0] @ '' Durand'']\<rparr>"

text \<open>
  C10. For every string \<open>s\<close>, \<open>text_clean s\<close> is \<open>squeeze s\<close> with the white space at
  both ends stripped: runs of space, tab, CR, FF, VT and non-breaking space become one
  space, every other character is kept, in order, and the lines between newlines are
  squeezed one by one. An interior newline, with text on both sides, stays where it is
  between the cleaned parts. The \<open>raw\<close> field of a parsed case is the squeezed text of
  the case, so its lines, split at the newlines, are the squeezed lines of that text.
\<close>

theorem text_clean_keeps_interior_newline:
  "text_clean s = py_strip (squeeze s) \<and>
   filter (\<lambda>c. \<not> soft c) (squeeze s) = filter (\<lambda>c. \<not> soft c) s \<and>
   split_nl (squeeze s) = map squeeze (split_nl s) \<and>
   ((\<exists>c\<in>set a. \<not> py_isspace c) \<longrightarrow> (\<exists>c\<in>set b. \<not> py_isspace c) \<longrightarrow>
      text_clean (a @ CHR 0x0A # b) = py_lstrip (squeeze a) @ CHR 0x0A # py_rstrip (squeeze b)) \<and>
   map_of (case_payload c) ''raw'' = Some (squeeze (bs_get_text [CHR 0x0A] (c_strings c))) \<and>
   map_option split_nl (map_of (case_payload c) ''raw'') =
     Some (map squeeze (split_nl (bs_get_text [CHR 0x0A] (c_strings c))))"
proof (intro conjI impI)
  show "text_clean s = py_strip (squeeze s)" by (rule text_clean_squeeze)
  show "filter (\<lambda>c. \<not> soft c) (squeeze s) = filter (\<lambda>c. \<not> soft c) s"
    by (rule squeeze_keeps_hard)
  show "split_nl (squeeze s) = map squeeze (split_nl s)" by (rule split_nl_squeeze)
  show "map_of (case_payload c) ''raw'' = Some (squeeze (bs_get_text [CHR 0x0A] (c_strings c)))"
    by (rule raw_field)
  show "map_option split_nl (map_of (case_payload c) ''raw'') =
     Some (map squeeze (split_nl (bs_get_text [CHR 0x0A] (c_strings c))))"
    by (simp only: raw_field option.map split_nl_squeeze)
next
  assume a: "\<exists>c\<in>set a. \<not> py_isspace c" and b: "\<exists>c\<in>set b. \<not> py_isspace c"
  have "text_clean (a @ CHR 0x0A # b) = py_strip (squeeze a @ CHR 0x0A # squeeze b)"
    by (simp only: text_clean_squeeze squeeze_append_newline)
  also have "\<dots> = py_lstrip (squeeze a) @ CHR 0x0A # py_rstrip (squeeze b)"
    by (rule py_strip_around [OF solid_squeezed [OF a] solid_squeezed [OF b]])
  finally show "text_clean (a @ CHR 0x0A # b) =
      py_lstrip (squeeze a) @ CHR 0x0A # py_rstrip (squeeze b)" .
qed

theorem text_clean_keeps_interior_newline_witness:
  "text_clean (''Maths'' @ [CHR 0x09, CHR 0xA0] @ '' B204 '') = ''Maths B204'' \<and>
   text_clean (''Maths  '' @ CHR 0x0A # [CHR 0xA0] @ ''B204'') = ''Maths '' @ CHR 0x0A # '' B204'' \<and>
   map_of (case_payload two_line_case) ''raw'' = Some (''Maths'' @ CHR 0x0A # ''Pierre Durand'') \<and>
   map_option split_nl (map_of (case_payload two_line_case) ''raw'') =
     Some [''Maths'', ''Pierre Durand'']"
proof -
  let ?s = "''Maths'' @ [CHR 0x09, CHR 0xA0] @ '' B204 ''"
  let ?a = "''Maths  ''"
  let ?b = "[CHR 0xA0] @ ''B204''"
  let ?t = "bs_get_text [CHR 0x0A] (c_strings two_line_case)"
  note t = text_clean_keeps_interior_newline [of ?s ?a ?b two_line_case]
  have a: "\<exists>c\<in>set ?a. \<not> py_isspace c"
    by (simp add: py_isspace_def)
  have b: "\<exists>c\<in>set ?b. \<not> py_isspace c"
    by (simp add: py_isspace_def)
  have e1: "py_strip (squeeze ?s) = ''Maths B204''" by code_simp
  have e2: "py_lstrip (squeeze ?a) @ CHR 0x0A # py_rstrip (squeeze ?b) = ''Maths '' @ CHR 0x0A # '' B204''"
    by code_simp
  have e3: "squeeze ?t = ''Maths'' @ CHR 0x0A # ''Pierre Durand''" by code_simp
  have e4: "map squeeze (split_nl ?t) = [''Maths'', ''Pierre Durand'']" by code_simp
  from t have "text_clean ?s = py_strip (squeeze ?s)" by (rule conjunct1)
  with e1 have c1: "text_clean ?s = ''Maths B204''" by (simp only:)
  from t a b have "text_clean (?a @ CHR 0x0A # ?b) =
      py_lstrip (squeeze ?a) @ CHR 0x0A # py_rstrip (squeeze ?b)" by blast
  with e2 have c2: "text_clean (?a @ CHR 0x0A # ?b) = ''Maths '' @ CHR 0x0A # '' B204''"
    by (simp only:)
  from t have "map_of (case_payload two_line_case) ''raw'' = Some (squeeze ?t)" by blast
  with e3 have c3: "map_of (case_payload two_line_case) ''raw'' =
      Some (''Maths'' @ CHR 0x0A # ''Pierre Durand'')" by (simp only:)
  from t have "map_option split_nl (map_of (case_payload two_line_case) ''raw'') =
      Some (map squeeze (split_nl ?t))" by blast
  with e4 have c4: "map_option split_nl (map_of (case_payload two_line_case) ''raw'') =
      Some [''Maths'', ''Pierre Durand'']" by (simp only:)
  from c1 c2 c3 c4 show ?thesis by (intro conjI)
qed

text \<open>
  The lines of the \<open>raw\<close> field are those that a newline ends. The field parser splits
  the same text with \<open>splitlines\<close>, for which a carriage return ends a line too: a text
  node with a carriage return between two words is two lines for the parser, which finds
  a title and a teacher in it, and one line of the \<open>raw\<close> field, where the carriage
  return has become a space.
\<close>

lemma carriage_return_is_no_raw_line:
  "case_payload \<lparr>c_id = [], c_left = Some (Fin 10),
                 c_strings = [''Maths'' @ [CHR 0x0D] @ ''Pierre Durand'']\<rparr> =
     [(''raw'', ''Maths Pierre Durand''), (''start'', []), (''end'', []), (''room'', []),
      (''site'', []), (''teacher'', ''Pierre Durand''), (''title'', ''Maths'')]"
  by code_simp

section \<open>The week assembler without headers\<close>

text \<open>
  C9. Called with an empty list of day headers, \<open>build_week_map\<close> returns the empty
  mapping, whatever the case nodes are. The function has no raising path: the model is
  a total function and this is its value.
\<close>

theorem build_week_map_no_headers: "build_week_map cs [] = []"
  by (simp add: build_week_map_def)

section \<open>The case field parser on the scenario\<close>

definition scenario_case :: casediv where
  \<comment> \<open>a case whose text nodes are the four lines of the scenario\<close>
  "scenario_case =
     \<lparr>c_id = [], c_left = Some (Fin 10),
      c_strings = [''09:00 - 10:30'', ''Algorithmique'', ''Salle: B204 (Site Nord)'',
                   ''J. Martin'']\<rparr>"

lemma scenario_payload:
  "case_payload scenario_case =
     [(''raw'', ''09:00 - 10:30'' @ [CHR 0x0A] @ ''Algorithmique'' @ [CHR 0x0A] @
                ''Salle: B204 (Site Nord)'' @ [CHR 0x0A] @ ''J. Martin''),
      (''start'', ''09:00''), (''end'', ''10:30''), (''room'', ''B204''),
      (''site'', ''Site Nord''), (''teacher'', []), (''title'', ''Algorithmique'')]"
  by code_simp

text \<open>
  C1, as amended. On the lines of the scenario the parser returns start 09:00, end 10:30,
  title Algorithmique, room B204, site Site Nord, and an empty teacher: the line
  \<open>J. Martin\<close> holds a full stop, which the name pattern does not admit.
\<close>

theorem case_payload_scenario:
  "map_of (case_payload scenario_case) ''start'' = Some ''09:00'' \<and>
   map_of (case_payload scenario_case) ''end'' = Some ''10:30'' \<and>
   map_of (case_payload scenario_case) ''title'' = Some ''Algorithmique'' \<and>
   map_of (case_payload scenario_case) ''room'' = Some ''B204'' \<and>
   map_of (case_payload scenario_case) ''site'' = Some ''Site Nord'' \<and>
   map_of (case_payload scenario_case) ''teacher'' = Some []"
  by (simp add: scenario_payload)

text \<open>The claim as written fails on the teacher.\<close>

theorem case_payload_scenario_teacher:
  "map_of (case_payload scenario_case) ''teacher'' \<noteq> Some ''J. Martin''"
  by (simp add: scenario_payload)

text \<open>Without the full stop the same line is taken as the teacher.\<close>

lemma name_without_full_stop:
  "map_of (case_payload (scenario_case\<lparr>c_strings :=
      [''09:00 - 10:30'', ''Algorithmique'', ''Salle: B204 (Site Nord)'', ''J Martin'']\<rparr>))
     ''teacher'' = Some ''J Martin''"
  by code_simp

section \<open>The keys of an event\<close>

definition no_class_case :: casediv where
  "no_class_case = \<lparr>c_id = [], c_left = Some (Fin 0), c_strings = [''Pas de cours cette semaine'']\<rparr>"

lemma no_class_week:
  "build_week_map [no_class_case] [(Fin 10, ''Lundi 15 septembre''), (Fin 30, ''Mardi 16 septembre'')] =
     [(''Lundi 15 septembre'', [forced_event]), (''Mardi 16 septembre'', [])]"
  by code_simp

text \<open>
  C4 does not hold of the code. An event parsed from a case has the seven keys raw,
  start, end, room, site, teacher, title, in this order; the event forced for a case that
  says "pas de cours" has six: the key site is missing.
\<close>

theorem forced_event_has_no_site:
  "map fst (case_payload c) = [''raw'', ''start'', ''end'', ''room'', ''site'', ''teacher'', ''title''] \<and>
   build_week_map [no_class_case] [(Fin 10, ''Lundi 15 septembre''), (Fin 30, ''Mardi 16 septembre'')] =
     [(''Lundi 15 septembre'', [forced_event]), (''Mardi 16 septembre'', [])] \<and>
   map fst forced_event = [''raw'', ''start'', ''end'', ''room'', ''teacher'', ''title''] \<and>
   map_of forced_event ''site'' = None"
  by (simp add: no_class_week forced_event_def case_payload_def Let_def split_def)

section \<open>The day-header resolver\<close>

lemma leap_day_accent:
  "parse_day_header_date (''Jeudi 29 f'' @ [CHR 0xE9] @ ''vrier'') = None"
  by code_simp

lemma leap_day_plain: "parse_day_header_date ''Jeudi 29 fevrier'' = None"
  by code_simp

lemma last_of_february:
  "parse_day_header_date (''Mercredi 28 f'' @ [CHR 0xE9] @ ''vrier'') =
     Some \<lparr>d_year = 1900, d_month = 2, d_day = 28\<rparr>"
  by code_simp

text \<open>
  C8 does not hold of the code. 29 February is a day of the calendar (2024-02-29 was a
  Thursday), but the resolver builds the date in the year 1900, which is no leap year,
  and returns absent for the header of that day, with or without the accent. The day
  before resolves.
\<close>

theorem leap_day_header_is_absent:
  "mk_date 2024 2 29 = Some \<lparr>d_year = 2024, d_month = 2, d_day = 29\<rparr> \<and>
   parse_day_header_date (''Jeudi 29 f'' @ [CHR 0xE9] @ ''vrier'') = None \<and>
   parse_day_header_date ''Jeudi 29 fevrier'' = None \<and>
   parse_day_header_date (''Mercredi 28 f'' @ [CHR 0xE9] @ ''vrier'') =
     Some \<lparr>d_year = 1900, d_month = 2, d_day = 28\<rparr>"
  using leap_day_accent leap_day_plain last_of_february
  by (simp add: mk_date_def days_in_month_def is_leap_def)

end
